theory Spec2Isabelle
  imports Complex_Main
begin

section \<open>The sentiment inference service (sentiment\_service.py)\<close>

text \<open>
  A shallow embedding of \<^verbatim>\<open>src/lib/greengrass/components/sentiment/sentiment_service.py\<close>.
  The module's globals (\<^verbatim>\<open>classifier\<close>, \<^verbatim>\<open>start_time\<close>, \<^verbatim>\<open>request_count\<close>,
  \<^verbatim>\<open>total_latency_ms\<close>) are the fields of one state record that every handler takes
  and returns. A raised exception is the \<open>Inl\<close> branch of a sum. Python's \<^verbatim>\<open>int\<close> is
  \<open>int\<close>. A Python \<^verbatim>\<open>float\<close> is the \<open>real\<close> it denotes; the division and the rounding
  behind the reported average are modelled with the rounding of the binary64 format
  written out (\<open>fl\<close> below), while the duration of an inference is computed from the
  clock readings over the reals, which is what the float arithmetic yields on readings
  such as 10 and 10.25, whose difference and its thousandfold are binary fractions. A
  \<^verbatim>\<open>str\<close> is a \<open>string\<close>, one \<open>char\<close> standing for one Python character. Log output is
  not modelled.
\<close>

subsection \<open>Python primitives\<close>

text \<open>\<^verbatim>\<open>int(x)\<close> on a float truncates towards zero.\<close>

definition py_int :: "real \<Rightarrow> int" where
  "py_int x = (if 0 \<le> x then \<lfloor>x\<rfloor> else \<lceil>x\<rceil>)"

text \<open>The nearest integer, a tie going to the even neighbour.\<close>

definition round_half_even :: "real \<Rightarrow> int" where
  "round_half_even y =
     (let f = \<lfloor>y\<rfloor>; d = y - of_int f
      in if d < 1 / 2 then f else if 1 / 2 < d then f + 1 else if even f then f else f + 1)"

text \<open>
  Rounding a real to the nearest IEEE 754 binary64 value, ties to the even significand,
  which is how CPython's float operations round. \<open>bit_length n\<close> is the number of binary
  digits of \<open>n\<close>; \<open>ilog2 x\<close> is the exponent \<open>e\<close> with \<open>2^e \<le> x < 2^(e+1)\<close> for a positive
  \<open>x\<close>. A binary64 value is a multiple of \<open>2^q\<close> with \<open>q = e - 52\<close>, and with
  \<open>q = -1074\<close> in the subnormal range. The format's upper limit is not part of \<open>fl\<close>:
  beyond \<open>2^1024\<close> Python raises \<^verbatim>\<open>OverflowError\<close> instead of returning a value.
\<close>

fun bit_length :: "nat \<Rightarrow> nat" where
  "bit_length n = (if n = 0 then 0 else Suc (bit_length (n div 2)))"

declare bit_length.simps [simp del]

definition pow2 :: "int \<Rightarrow> real" where
  "pow2 q = (if 0 \<le> q then 2 ^ nat q else 1 / 2 ^ nat (- q))"

definition ilog2 :: "real \<Rightarrow> int" where
  "ilog2 x =
     (if 1 \<le> x then int (bit_length (nat \<lfloor>x\<rfloor>)) - 1
      else - int (bit_length (nat (\<lceil>1 / x\<rceil> - 1))))"

definition fl :: "real \<Rightarrow> real" where
  "fl x =
     (if x = 0 then 0
      else (let q = max (ilog2 \<bar>x\<bar> - 52) (- 1074)
            in of_int (round_half_even (x / pow2 q)) * pow2 q))"

text \<open>
  \<^verbatim>\<open>a / b\<close> on two \<^verbatim>\<open>int\<close>s is the correctly rounded quotient. The handlers guard the
  division with \<^verbatim>\<open>request_count > 0\<close>. For a quotient beyond the range of a float Python
  raises \<^verbatim>\<open>OverflowError\<close>; that takes a cumulative latency above \<open>2^1023\<close> ms, and the
  statements about the average below are made for counters under that bound.
\<close>

definition py_truediv :: "int \<Rightarrow> int \<Rightarrow> real" where
  "py_truediv a b = fl (of_int a / of_int b)"

text \<open>
  \<^verbatim>\<open>round(x, 2)\<close> on a float: the exact value of \<open>x\<close> is rounded to a whole number of
  hundredths, a tie going to the even one, and the result is the float nearest to that
  decimal. (\<^verbatim>\<open>round(0, 2)\<close> on the \<^verbatim>\<open>int\<close> 0 is 0, as here.)
\<close>

definition py_round2 :: "real \<Rightarrow> real" where
  "py_round2 x = fl (of_int (round_half_even (x * 100)) / 100)"

text \<open>\<^verbatim>\<open>str.lower()\<close>, on the ASCII letters; every other character is kept.\<close>

definition lower_char :: "char \<Rightarrow> char" where
  "lower_char c =
     (case map_of (zip ''ABCDEFGHIJKLMNOPQRSTUVWXYZ'' ''abcdefghijklmnopqrstuvwxyz'') c of
        Some d \<Rightarrow> d
      | None \<Rightarrow> c)"

definition str_lower :: "string \<Rightarrow> string" where
  "str_lower s = map lower_char s"

subsection \<open>The classifier capability\<close>

text \<open>
  The transformers pipeline is opaque. It is called with one \<^verbatim>\<open>str\<close> or with a list of
  them, and it returns a list of \<^verbatim>\<open>{"label": ..., "score": ...}\<close> dictionaries or raises;
  \<open>Inl msg\<close> is the raised exception, \<open>msg\<close> its \<^verbatim>\<open>str(e)\<close>. The answer is typed: every
  dictionary has both keys, a \<^verbatim>\<open>str\<close> label and a \<^verbatim>\<open>float\<close> score, as the pipeline's
  have. With an answer of another shape the construction of the response would fail
  inside the \<^verbatim>\<open>try\<close>, after the counters have been updated; that path lies outside
  this model, and no statement below is about it.
\<close>

datatype clf_input = Single string | Many "string list"

record clf_output =
  out_label :: string
  out_score :: real

type_synonym pipeline = "clf_input \<Rightarrow> string + clf_output list"

subsection \<open>Requests and responses (the pydantic models)\<close>

text \<open>
  The fields keep their names, with a prefix where the name is an Isabelle keyword
  (\<^verbatim>\<open>text\<close>, \<^verbatim>\<open>context\<close>) or where two models share it.
\<close>

record SentimentRequest =
  req_text :: string
  req_context :: "string option"

record BatchSentimentRequest =
  texts :: "string list"

record SentimentResponse =
  sentiment :: string
  score :: real
  label :: string
  source :: string
  latency_ms :: int
  resp_context :: "string option"
  timestamp :: string

record HealthResponse =
  status :: string
  service :: string
  model :: string
  uptime_seconds :: int
  total_requests :: int
  avg_latency_ms :: real

text \<open>One entry of the \<^verbatim>\<open>"results"\<close> list of a batch response, and the batch response.\<close>

record BatchItem =
  item_text :: string
  item_sentiment :: string
  item_score :: real
  item_label :: string
  item_latency_ms :: int

record BatchResponse =
  results :: "BatchItem list"
  batch_source :: string
  batch_total_latency_ms :: int
  count :: int
  batch_timestamp :: string

text \<open>The dictionary that \<^verbatim>\<open>get_metrics\<close> returns.\<close>

record MetricsResponse =
  sentiment_service_uptime_seconds :: int
  sentiment_service_requests_total :: int
  sentiment_service_latency_avg_ms :: real
  sentiment_service_latency_total_ms :: int
  sentiment_service_model :: string
  sentiment_service_status :: int

text \<open>
  What a handler raises: \<^verbatim>\<open>HTTPException(status_code, detail)\<close>, or the validation error
  that FastAPI answers with status 422 before the handler runs.
\<close>

datatype http_error = HTTPException int string | RequestValidationError

fun status_code :: "http_error \<Rightarrow> int" where
  "status_code (HTTPException c d) = c"
| "status_code RequestValidationError = 422"

subsection \<open>The process state\<close>

text \<open>
  \<open>classifier = None\<close> is Python's \<^verbatim>\<open>classifier = None\<close>; a pipeline object is truthy.
  \<open>MODEL_NAME\<close> is read from the environment once, at import. \<open>calls\<close> is not a variable
  of the program: it instruments the capability, logging every invocation in order.
\<close>

record service_state =
  classifier :: "pipeline option"
  start_time :: real
  request_count :: int
  total_latency_ms :: int
  MODEL_NAME :: string
  calls :: "clf_input list"

text \<open>The state after the module is imported, before the startup hook has run.\<close>

definition initial_state :: "string \<Rightarrow> real \<Rightarrow> service_state" where
  "initial_state name t0 =
     \<lparr>classifier = None, start_time = t0, request_count = 0, total_latency_ms = 0,
      MODEL_NAME = name, calls = []\<rparr>"

text \<open>
  What one handler run reads from the clock: \<^verbatim>\<open>time.time()\<close> before and after the
  inference, in seconds, and \<^verbatim>\<open>datetime.now().isoformat()\<close>.
\<close>

record clock =
  t_start :: real
  t_end :: real
  now_iso :: string

definition invoke :: "pipeline \<Rightarrow> clf_input \<Rightarrow> service_state \<Rightarrow> (string + clf_output list) \<times> service_state" where
  "invoke clf x s = (clf x, s\<lparr>calls := calls s @ [x]\<rparr>)"

subsection \<open>startup\_event\<close>

definition warmup_text :: string where
  "warmup_text = ''This is a test sentence for warming up the model.''"

text \<open>
  \<open>factory\<close> is \<^verbatim>\<open>transformers.pipeline\<close> applied to the model name: it yields the
  capability or raises. The global is assigned before the warm-up inference runs, and the
  \<^verbatim>\<open>except\<close> clause logs and re-raises without touching it.
\<close>

definition startup_event :: "(string \<Rightarrow> string + pipeline) \<Rightarrow> service_state \<Rightarrow> (string + unit) \<times> service_state" where
  "startup_event factory s =
     (case factory (MODEL_NAME s) of
        Inl e \<Rightarrow> (Inl e, s)
      | Inr clf \<Rightarrow>
          (let s1 = s\<lparr>classifier := Some clf\<rparr>;
               (r, s2) = invoke clf (Single warmup_text) s1
           in case r of
                Inl e \<Rightarrow> (Inl e, s2)
              | Inr _ \<Rightarrow> (Inr (), s2)))"

subsection \<open>health\_check and get\_metrics\<close>

definition avg_latency :: "service_state \<Rightarrow> real" where
  "avg_latency s =
     (if request_count s > 0 then py_truediv (total_latency_ms s) (request_count s) else 0)"

definition health_check :: "real \<Rightarrow> service_state \<Rightarrow> HealthResponse" where
  "health_check now s =
     \<lparr>status = (if classifier s \<noteq> None then ''healthy'' else ''unhealthy''),
      service = ''sentiment'',
      model = MODEL_NAME s,
      uptime_seconds = py_int (now - start_time s),
      total_requests = request_count s,
      avg_latency_ms = py_round2 (avg_latency s)\<rparr>"

definition get_metrics :: "real \<Rightarrow> service_state \<Rightarrow> MetricsResponse" where
  "get_metrics now s =
     \<lparr>sentiment_service_uptime_seconds = py_int (now - start_time s),
      sentiment_service_requests_total = request_count s,
      sentiment_service_latency_avg_ms = py_round2 (avg_latency s),
      sentiment_service_latency_total_ms = total_latency_ms s,
      sentiment_service_model = MODEL_NAME s,
      sentiment_service_status = (if classifier s \<noteq> None then 1 else 0)\<rparr>"

subsection \<open>analyze\_sentiment\<close>

text \<open>
  The readiness check is outside the \<^verbatim>\<open>try\<close>; everything after it is inside, so the
  \<^verbatim>\<open>IndexError\<close> of \<^verbatim>\<open>[0]\<close> on an empty result list becomes a 500 like an exception of
  the capability itself.
\<close>

definition analyze_sentiment :: "SentimentRequest \<Rightarrow> clock \<Rightarrow> service_state \<Rightarrow> (http_error + SentimentResponse) \<times> service_state" where
  "analyze_sentiment request c s =
     (case classifier s of
        None \<Rightarrow> (Inl (HTTPException 503 ''Model not loaded''), s)
      | Some clf \<Rightarrow>
          (let (out, s1) = invoke clf (Single (req_text request)) s
           in case out of
                Inl msg \<Rightarrow> (Inl (HTTPException 500 msg), s1)
              | Inr [] \<Rightarrow> (Inl (HTTPException 500 ''list index out of range''), s1)
              | Inr (result # _) \<Rightarrow>
                  (let latency = py_int ((t_end c - t_start c) * 1000);
                       s2 = s1\<lparr>request_count := request_count s1 + 1,
                               total_latency_ms := total_latency_ms s1 + latency\<rparr>
                   in (Inr \<lparr>sentiment = str_lower (out_label result),
                            score = out_score result,
                            label = out_label result,
                            source = ''greengrass-edge'',
                            latency_ms = latency,
                            resp_context = req_context request,
                            timestamp = now_iso c\<rparr>, s2))))"

subsection \<open>analyze\_batch\<close>

definition batch_item :: "int \<Rightarrow> string \<times> clf_output \<Rightarrow> BatchItem" where
  "batch_item per_text_latency p =
     \<lparr>item_text = fst p,
      item_sentiment = str_lower (out_label (snd p)),
      item_score = out_score (snd p),
      item_label = out_label (snd p),
      item_latency_ms = per_text_latency\<rparr>"

text \<open>
  The counters are updated before \<^verbatim>\<open>total_time_ms // len(request.texts)\<close>, which raises
  \<^verbatim>\<open>ZeroDivisionError\<close> on an empty list (a list that validation never lets through).
  \<^verbatim>\<open>zip\<close> stops at the shorter of its two arguments, as \<open>zip\<close> does.
\<close>

definition analyze_batch :: "BatchSentimentRequest \<Rightarrow> clock \<Rightarrow> service_state \<Rightarrow> (http_error + BatchResponse) \<times> service_state" where
  "analyze_batch request c s =
     (case classifier s of
        None \<Rightarrow> (Inl (HTTPException 503 ''Model not loaded''), s)
      | Some clf \<Rightarrow>
          (let (out, s1) = invoke clf (Many (texts request)) s
           in case out of
                Inl msg \<Rightarrow> (Inl (HTTPException 500 msg), s1)
              | Inr rs \<Rightarrow>
                  (let total_time_ms = py_int ((t_end c - t_start c) * 1000);
                       s2 = s1\<lparr>request_count := request_count s1 + int (length (texts request)),
                               total_latency_ms := total_latency_ms s1 + total_time_ms\<rparr>
                   in if length (texts request) = 0
                      then (Inl (HTTPException 500 ''integer division or modulo by zero''), s2)
                      else
                        (let per_text_latency = total_time_ms div int (length (texts request))
                         in (Inr \<lparr>results = map (batch_item per_text_latency) (zip (texts request) rs),
                                  batch_source = ''greengrass-edge'',
                                  batch_total_latency_ms = total_time_ms,
                                  count = int (length (texts request)),
                                  batch_timestamp = now_iso c\<rparr>, s2)))))"

subsection \<open>Request validation and the endpoints\<close>

text \<open>
  \<^verbatim>\<open>Field(..., min_length=1, max_length=5000)\<close> on \<^verbatim>\<open>text\<close>, and
  \<^verbatim>\<open>Field(..., min_items=1, max_items=100)\<close> on \<^verbatim>\<open>texts\<close>, whose elements are plain
  \<^verbatim>\<open>str\<close> with no constraint. FastAPI validates the body first and calls the handler
  only with a valid request.
\<close>

definition SentimentRequest_valid :: "SentimentRequest \<Rightarrow> bool" where
  "SentimentRequest_valid r = (1 \<le> length (req_text r) \<and> length (req_text r) \<le> 5000)"

definition BatchSentimentRequest_valid :: "BatchSentimentRequest \<Rightarrow> bool" where
  "BatchSentimentRequest_valid r = (1 \<le> length (texts r) \<and> length (texts r) \<le> 100)"

definition post_analyze :: "SentimentRequest \<Rightarrow> clock \<Rightarrow> service_state \<Rightarrow> (http_error + SentimentResponse) \<times> service_state" where
  "post_analyze r c s =
     (if SentimentRequest_valid r then analyze_sentiment r c s else (Inl RequestValidationError, s))"

definition post_analyze_batch :: "BatchSentimentRequest \<Rightarrow> clock \<Rightarrow> service_state \<Rightarrow> (http_error + BatchResponse) \<times> service_state" where
  "post_analyze_batch r c s =
     (if BatchSentimentRequest_valid r then analyze_batch r c s else (Inl RequestValidationError, s))"

subsection \<open>Serving a sequence of requests\<close>

datatype request =
  GetHealth real
| GetMetrics real
| PostAnalyze SentimentRequest clock
| PostAnalyzeBatch BatchSentimentRequest clock

fun serve :: "request \<Rightarrow> service_state \<Rightarrow> service_state" where
  "serve (GetHealth now) s = s"
| "serve (GetMetrics now) s = s"
| "serve (PostAnalyze r c) s = snd (post_analyze r c s)"
| "serve (PostAnalyzeBatch r c) s = snd (post_analyze_batch r c s)"

definition serve_all :: "request list \<Rightarrow> service_state \<Rightarrow> service_state" where
  "serve_all rs s = fold serve rs s"

subsection \<open>The server process\<close>






subsection \<open>Fixtures\<close>

text \<open>
  Concrete capabilities, factories and clock readings on which the theorems below are
  instantiated: a capability that labels one known sentence negative and every other
  text positive, one that raises on every call, and factories that yield them or raise.
\<close>

definition demo_classify :: "string \<Rightarrow> clf_output" where
  "demo_classify t =
     (if t = ''Service was terrible.'' then \<lparr>out_label = ''NEGATIVE'', out_score = 98 / 100\<rparr>
      else \<lparr>out_label = ''POSITIVE'', out_score = 99 / 100\<rparr>)"

definition demo_pipeline :: pipeline where
  "demo_pipeline x = (case x of Single t \<Rightarrow> Inr [demo_classify t] | Many ts \<Rightarrow> Inr (map demo_classify ts))"


definition demo_factory :: "string \<Rightarrow> string + pipeline" where
  "demo_factory name = Inr demo_pipeline"



definition demo_clock :: clock where
  "demo_clock = \<lparr>t_start = 10, t_end = 1025 / 100, now_iso = ''2025-10-23T20:16:30''\<rparr>"

definition fresh_state :: service_state where
  "fresh_state = initial_state ''distilbert-base-uncased-finetuned-sst-2-english'' 0"

definition ready_state :: service_state where
  "ready_state = snd (startup_event demo_factory fresh_state)"

text \<open>
  A capability that gets through the warm-up and raises on everything else, and the
  service that started with it.
\<close>

definition picky_pipeline :: pipeline where
  "picky_pipeline x =
     (if x = Single warmup_text then Inr [demo_classify warmup_text] else Inl ''inference failed'')"

definition picky_factory :: "string \<Rightarrow> string + pipeline" where
  "picky_factory name = Inr picky_pipeline"

definition broken_state :: service_state where
  "broken_state = snd (startup_event picky_factory fresh_state)"

text \<open>
  The ready service after one batch of three texts whose inference took 250 ms (clock
  readings 10 and 10.25), and after 40 single requests that took 107 ms together and
  after 200 that took 1 ms together: counter values at which rounding the exact quotient
  and rounding the float quotient part ways.
\<close>

definition three_in_250_ms :: service_state where
  "three_in_250_ms =
     serve_all [PostAnalyzeBatch \<lparr>texts = [''a'', ''b'', ''c'']\<rparr> demo_clock] ready_state"

definition forty_in_107_ms :: service_state where
  "forty_in_107_ms = ready_state\<lparr>request_count := 40, total_latency_ms := 107\<rparr>"

definition two_hundred_in_1_ms :: service_state where
  "two_hundred_in_1_ms = ready_state\<lparr>request_count := 200, total_latency_ms := 1\<rparr>"





text \<open>A capability that answers lists as \<open>demo_pipeline\<close> does and refuses a single text.\<close>

definition batch_only_pipeline :: pipeline where
  "batch_only_pipeline x =
     (case x of Single t \<Rightarrow> Inl ''single texts refused'' | Many ts \<Rightarrow> Inr (map demo_classify ts))"

text \<open>
  Requests for the instances below, with the responses and the state that the ready
  service gives for them.
\<close>

definition two_texts :: BatchSentimentRequest where
  "two_texts = \<lparr>texts = [''Service was terrible.'', ''The room was wonderful!'']\<rparr>"

definition two_texts_response :: BatchResponse where
  "two_texts_response =
     \<lparr>results = [\<lparr>item_text = ''Service was terrible.'', item_sentiment = ''negative'',
                  item_score = 98 / 100, item_label = ''NEGATIVE'', item_latency_ms = 125\<rparr>,
                 \<lparr>item_text = ''The room was wonderful!'', item_sentiment = ''positive'',
                  item_score = 99 / 100, item_label = ''POSITIVE'', item_latency_ms = 125\<rparr>],
      batch_source = ''greengrass-edge'', batch_total_latency_ms = 250, count = 2,
      batch_timestamp = ''2025-10-23T20:16:30''\<rparr>"

definition after_two_texts :: service_state where
  "after_two_texts =
     ready_state\<lparr>calls := [Single warmup_text, Many (texts two_texts)],
                 request_count := 2, total_latency_ms := 250\<rparr>"

definition nice_request :: SentimentRequest where
  "nice_request = \<lparr>req_text = ''The room was absolutely wonderful!'', req_context = Some ''guest_review''\<rparr>"

definition nice_response :: SentimentResponse where
  "nice_response =
     \<lparr>sentiment = ''positive'', score = 99 / 100, label = ''POSITIVE'', source = ''greengrass-edge'',
      latency_ms = 250, resp_context = Some ''guest_review'', timestamp = ''2025-10-23T20:16:30''\<rparr>"

definition odd_texts :: BatchSentimentRequest where
  "odd_texts = \<lparr>texts = ['''', replicate 5001 (CHR ''a'')]\<rparr>"

definition long_request :: "nat \<Rightarrow> SentimentRequest" where
  "long_request n = \<lparr>req_text = replicate n (CHR ''a''), req_context = None\<rparr>"

definition sized_batch :: "nat \<Rightarrow> BatchSentimentRequest" where
  "sized_batch n = \<lparr>texts = replicate n ''ok''\<rparr>"

section \<open>Properties\<close>

subsection \<open>Facts about the primitives and the fixtures\<close>

text \<open>
  The exponent that \<open>fl\<close> works with is the right one, \<open>fl x\<close> is at most half a unit
  of the last place away from \<open>x\<close>, and it yields the known binary64 value of 0.1.
\<close>

lemma bit_length_upper: "n < 2 ^ bit_length n"
proof (induction n rule: bit_length.induct)
  case (1 n)
  show ?case
  proof (cases "n = 0")
    case True
    then show ?thesis by (simp add: bit_length.simps)
  next
    case False
    with 1 have "n div 2 < 2 ^ bit_length (n div 2)" by simp
    then have "n < 2 * 2 ^ bit_length (n div 2)" by linarith
    with False show ?thesis by (subst bit_length.simps) simp
  qed
qed

lemma bit_length_lower: "0 < n \<Longrightarrow> 2 ^ (bit_length n - 1) \<le> n"
proof (induction n rule: bit_length.induct)
  case (1 n)
  then have n: "n \<noteq> 0" by simp
  show ?case
  proof (cases "n div 2 = 0")
    case True
    with n have "n = 1" by linarith
    then show ?thesis by (simp add: bit_length.simps)
  next
    case False
    with 1 n have ih: "2 ^ (bit_length (n div 2) - 1) \<le> n div 2" by simp
    from False have "bit_length (n div 2) \<noteq> 0" by (subst bit_length.simps) simp
    then have "(2::nat) ^ bit_length (n div 2) = 2 * 2 ^ (bit_length (n div 2) - 1)"
      by (cases "bit_length (n div 2)") simp_all
    with ih have "(2::nat) ^ bit_length (n div 2) \<le> n" by linarith
    with n show ?thesis by (subst bit_length.simps) simp
  qed
qed

lemma bit_length_pos: "0 < n \<Longrightarrow> bit_length n \<noteq> 0"
  by (subst bit_length.simps) simp

lemma real_bit_length_upper: "real n < 2 ^ bit_length n"
proof -
  have "real n < real (2 ^ bit_length n)"
    using bit_length_upper [of n] by (simp only: of_nat_less_iff)
  then show ?thesis by simp
qed

lemma real_bit_length_lower: "0 < n \<Longrightarrow> 2 ^ (bit_length n - 1) \<le> real n"
proof -
  assume "0 < n"
  then have "real (2 ^ (bit_length n - 1)) \<le> real n"
    using bit_length_lower [of n] by (simp only: of_nat_le_iff)
  then show ?thesis by simp
qed


lemma real_bit_length_succ: "real n + 1 \<le> 2 ^ bit_length n"
proof -
  have "Suc n \<le> 2 ^ bit_length n"
    using bit_length_upper [of n] by simp
  then have "real (Suc n) \<le> real (2 ^ bit_length n)"
    by (simp only: of_nat_le_iff)
  then show ?thesis by simp
qed

lemma ilog2_ge_1:
  assumes "1 \<le> x"
  shows "pow2 (ilog2 x) \<le> x" and "x < pow2 (ilog2 x + 1)"
proof -
  let ?n = "nat \<lfloor>x\<rfloor>"
  from assms have pos: "0 < ?n" by simp
  from assms have n: "real ?n \<le> x" "x < real ?n + 1" by linarith+
  from pos have b: "bit_length ?n \<noteq> 0" by (rule bit_length_pos)
  then have e: "nat (int (bit_length ?n) - 1) = bit_length ?n - 1" by simp
  from b have i: "ilog2 x = int (bit_length ?n - 1)"
    using assms by (simp add: ilog2_def)
  have "2 ^ (bit_length ?n - 1) \<le> real ?n" using pos by (rule real_bit_length_lower)
  with n(1) have "2 ^ (bit_length ?n - 1) \<le> x" by linarith
  then show "pow2 (ilog2 x) \<le> x" unfolding i by (simp add: pow2_def)
  from b have j: "ilog2 x + 1 = int (bit_length ?n)"
    using assms by (simp add: ilog2_def)
  have "real ?n + 1 \<le> 2 ^ bit_length ?n" by (rule real_bit_length_succ)
  with n(2) have "x < 2 ^ bit_length ?n" by linarith
  then show "x < pow2 (ilog2 x + 1)" unfolding j by (simp add: pow2_def)
qed

lemma ilog2_lt_1:
  assumes "0 < x" and "x < 1"
  shows "pow2 (ilog2 x) \<le> x" and "x < pow2 (ilog2 x + 1)"
proof -
  let ?m = "nat (\<lceil>1 / x\<rceil> - 1)"
  from assms have y: "1 < 1 / x" by simp
  then have c: "1 < \<lceil>1 / x\<rceil>" by linarith
  then have pos: "0 < ?m" by simp
  from c have m: "real ?m < 1 / x" "1 / x \<le> real ?m + 1" by linarith+
  from pos have b: "bit_length ?m \<noteq> 0" by (rule bit_length_pos)
  from assms have i: "ilog2 x = - int (bit_length ?m)" by (simp add: ilog2_def)
  have "real ?m + 1 \<le> 2 ^ bit_length ?m" by (rule real_bit_length_succ)
  with m(2) have "1 / x \<le> 2 ^ bit_length ?m" by linarith
  with assms(1) have "1 / 2 ^ bit_length ?m \<le> x" by (simp add: field_simps)
  with b show "pow2 (ilog2 x) \<le> x" unfolding i by (simp add: pow2_def)
  have "2 ^ (bit_length ?m - 1) \<le> real ?m" using pos by (rule real_bit_length_lower)
  with m(1) have "2 ^ (bit_length ?m - 1) < 1 / x" by linarith
  with assms(1) have lt: "x < 1 / 2 ^ (bit_length ?m - 1)" by (simp add: field_simps)
  show "x < pow2 (ilog2 x + 1)"
  proof (cases "bit_length ?m = 1")
    case True
    with assms(2) show ?thesis unfolding i by (simp add: pow2_def)
  next
    case False
    with b have "nat (int (bit_length ?m) - 1) = bit_length ?m - 1" "\<not> int (bit_length ?m) \<le> 1"
      by simp_all
    with lt show ?thesis unfolding i by (simp add: pow2_def)
  qed
qed

lemma ilog2_bounds:
  assumes "0 < x"
  shows "pow2 (ilog2 x) \<le> x \<and> x < pow2 (ilog2 x + 1)"
proof (cases "1 \<le> x")
  case True
  then show ?thesis using ilog2_ge_1 [of x] by simp
next
  case False
  with assms show ?thesis using ilog2_lt_1 [of x] by simp
qed

lemma fl_examples:
  "fl (1 / 10) = 3602879701896397 / 36028797018963968"
  "fl (1 / 4) = 1 / 4"
  "fl 250 = 250"
  by code_simp+

lemma round_half_even_near: "\<bar>of_int (round_half_even y) - y\<bar> \<le> 1 / 2"
proof -
  have "of_int \<lfloor>y\<rfloor> \<le> y" "y < of_int \<lfloor>y\<rfloor> + 1" by linarith+
  then show ?thesis
    unfolding round_half_even_def Let_def by (auto simp: abs_le_iff)
qed

lemma pow2_pos: "0 < pow2 q"
  by (simp add: pow2_def)

lemma fl_near:
  assumes "x \<noteq> 0"
  shows "\<bar>fl x - x\<bar> \<le> pow2 (max (ilog2 \<bar>x\<bar> - 52) (- 1074)) / 2"
proof -
  define p where "p = pow2 (max (ilog2 \<bar>x\<bar> - 52) (- 1074))"
  define m where "m = real_of_int (round_half_even (x / p))"
  have p: "0 < p" unfolding p_def by (rule pow2_pos)
  have "\<bar>m - x / p\<bar> \<le> 1 / 2" unfolding m_def by (rule round_half_even_near)
  then have "\<bar>m - x / p\<bar> * p \<le> 1 / 2 * p"
    using p by (rule mult_right_mono [OF _ less_imp_le])
  moreover have "\<bar>m - x / p\<bar> * p = \<bar>(m - x / p) * p\<bar>"
    using p by (simp add: abs_mult)
  moreover have "(m - x / p) * p = m * p - x"
    using p by (simp add: field_simps)
  ultimately have "\<bar>m * p - x\<bar> \<le> p / 2" by simp
  moreover have "fl x = m * p"
    using assms by (simp add: fl_def Let_def m_def p_def)
  ultimately show ?thesis unfolding p_def by simp
qed

lemma py_round2_zero: "py_round2 0 = 0"
  by (simp add: py_round2_def round_half_even_def fl_def)

lemma ready_state_eq:
  "ready_state = fresh_state\<lparr>classifier := Some demo_pipeline, calls := [Single warmup_text]\<rparr>"
  by (simp add: ready_state_def startup_event_def demo_factory_def invoke_def demo_pipeline_def
      fresh_state_def initial_state_def)

subsection \<open>What a successful handler run looks like\<close>

lemma analyze_batch_success:
  assumes "analyze_batch r c s = (Inr resp, s')"
  obtains clf rs where
    "texts r \<noteq> []"
    "classifier s = Some clf" "clf (Many (texts r)) = Inr rs"
    "resp = \<lparr>results = map (batch_item (py_int ((t_end c - t_start c) * 1000) div int (length (texts r))))
                         (zip (texts r) rs),
             batch_source = ''greengrass-edge'',
             batch_total_latency_ms = py_int ((t_end c - t_start c) * 1000),
             count = int (length (texts r)),
             batch_timestamp = now_iso c\<rparr>"
    "s' = s\<lparr>calls := calls s @ [Many (texts r)],
            request_count := request_count s + int (length (texts r)),
            total_latency_ms := total_latency_ms s + py_int ((t_end c - t_start c) * 1000)\<rparr>"
  using assms
  by (auto simp: analyze_batch_def invoke_def Let_def split: if_splits option.splits sum.splits)

lemma post_analyze_batch_success:
  assumes "post_analyze_batch r c s = (Inr resp, s')"
  shows "analyze_batch r c s = (Inr resp, s')" "1 \<le> length (texts r)" "length (texts r) \<le> 100"
  using assms
  by (auto simp: post_analyze_batch_def BatchSentimentRequest_valid_def split: if_splits)

lemma analyze_sentiment_success:
  assumes "analyze_sentiment r c s = (Inr resp, s')"
  obtains clf result rest where
    "classifier s = Some clf" "clf (Single (req_text r)) = Inr (result # rest)"
    "resp = \<lparr>sentiment = str_lower (out_label result), score = out_score result,
             label = out_label result, source = ''greengrass-edge'',
             latency_ms = py_int ((t_end c - t_start c) * 1000),
             resp_context = req_context r, timestamp = now_iso c\<rparr>"
    "s' = s\<lparr>calls := calls s @ [Single (req_text r)],
            request_count := request_count s + 1,
            total_latency_ms := total_latency_ms s + py_int ((t_end c - t_start c) * 1000)\<rparr>"
  using assms
  by (auto simp: analyze_sentiment_def invoke_def Let_def split: option.splits sum.splits list.splits)

lemma analyze_sentiment_not_validation: "fst (analyze_sentiment r c s) \<noteq> Inl RequestValidationError"
  by (simp add: analyze_sentiment_def invoke_def Let_def split: option.splits sum.splits list.splits)

lemma analyze_batch_not_validation: "fst (analyze_batch r c s) \<noteq> Inl RequestValidationError"
  by (simp add: analyze_batch_def invoke_def Let_def split: option.splits sum.splits)

lemma analyze_batch_calls:
  "classifier s = Some clf \<Longrightarrow> calls (snd (analyze_batch r c s)) = calls s @ [Many (texts r)]"
  by (simp add: analyze_batch_def invoke_def Let_def split: sum.splits)

lemma ready_state_classifier: "classifier ready_state = Some demo_pipeline"
  by (simp add: ready_state_eq)

lemma two_texts_run:
  "post_analyze_batch two_texts demo_clock ready_state = (Inr two_texts_response, after_two_texts)"
  by (simp add: post_analyze_batch_def BatchSentimentRequest_valid_def analyze_batch_def
      invoke_def Let_def two_texts_def demo_clock_def ready_state_eq demo_pipeline_def
      demo_classify_def batch_item_def str_lower_def lower_char_def py_int_def
      fresh_state_def initial_state_def two_texts_response_def after_two_texts_def)

lemma two_texts_handler_run:
  "analyze_batch two_texts demo_clock ready_state = (Inr two_texts_response, after_two_texts)"
  using two_texts_run by (rule post_analyze_batch_success(1))

lemma nice_run:
  "post_analyze nice_request demo_clock ready_state =
     (Inr nice_response,
      ready_state\<lparr>calls := [Single warmup_text, Single (req_text nice_request)],
                  request_count := 1, total_latency_ms := 250\<rparr>)"
  by (simp add: post_analyze_def SentimentRequest_valid_def analyze_sentiment_def
      invoke_def Let_def nice_request_def nice_response_def demo_clock_def ready_state_eq
      demo_pipeline_def demo_classify_def str_lower_def lower_char_def py_int_def
      fresh_state_def initial_state_def)

subsection \<open>Only the startup hook assigns the classifier\<close>






subsection \<open>C1: health status and the model lifecycle\<close>






subsection \<open>C3: the average latency that the health and metrics queries return\<close>

lemma three_in_250_ms_counters:
  "request_count three_in_250_ms = 3" "total_latency_ms three_in_250_ms = 250"
  by (simp_all add: three_in_250_ms_def serve_all_def post_analyze_batch_def
      BatchSentimentRequest_valid_def analyze_batch_def invoke_def ready_state_eq
      demo_pipeline_def demo_clock_def py_int_def fresh_state_def initial_state_def Let_def)

lemma float_250_by_3:
  "py_truediv 250 3 = 5864062014805333 / 70368744177664"
  "py_round2 (py_truediv 250 3) = 5863827452324741 / 70368744177664"
  by code_simp+

text \<open>
  The rounding follows the float, not the exact quotient: 107/40 is 2.675, the float
  nearest to it lies below, and the average is the float 2.67; 1/200 is 0.005, the float
  nearest to it lies above, and the average is the float 0.01.
\<close>

lemma avg_latency_follows_the_float:
  "avg_latency_ms (health_check 20 forty_in_107_ms) = fl (267 / 100)"
  "avg_latency_ms (health_check 20 two_hundred_in_1_ms) = fl (1 / 100)"
proof -
  have "py_round2 (py_truediv 107 40) = fl (267 / 100)" "py_round2 (py_truediv 1 200) = fl (1 / 100)"
    by code_simp+
  then show "avg_latency_ms (health_check 20 forty_in_107_ms) = fl (267 / 100)"
    "avg_latency_ms (health_check 20 two_hundred_in_1_ms) = fl (1 / 100)"
    by (simp_all add: health_check_def avg_latency_def forty_in_107_ms_def two_hundred_in_1_ms_def)
qed

text \<open>
  C3, as stated, fails: both queries return \<^verbatim>\<open>round(avg_latency, 2)\<close>. After one batch of
  three texts that took 250 ms the counters are 3 and 250; \<^verbatim>\<open>250 / 3\<close> is the float
  83.33333333333333 (5864062014805333 / 2^46), and both queries return the float 83.33
  (5863827452324741 / 2^46), which is neither that float nor the exact quotient.
\<close>

theorem avg_latency_exact_counterexample:
  "request_count three_in_250_ms = 3 \<and> total_latency_ms three_in_250_ms = 250
   \<and> avg_latency_ms (health_check 20 three_in_250_ms) = 5863827452324741 / 70368744177664
   \<and> sentiment_service_latency_avg_ms (get_metrics 20 three_in_250_ms)
       = 5863827452324741 / 70368744177664
   \<and> avg_latency_ms (health_check 20 three_in_250_ms)
       \<noteq> py_truediv (total_latency_ms three_in_250_ms) (request_count three_in_250_ms)
   \<and> avg_latency_ms (health_check 20 three_in_250_ms)
       \<noteq> real_of_int (total_latency_ms three_in_250_ms) / real_of_int (request_count three_in_250_ms)"
proof -
  have h: "avg_latency_ms (health_check 20 three_in_250_ms) = py_round2 (py_truediv 250 3)"
    "sentiment_service_latency_avg_ms (get_metrics 20 three_in_250_ms) = py_round2 (py_truediv 250 3)"
    by (simp_all add: three_in_250_ms_counters health_check_def get_metrics_def avg_latency_def)
  have q: "real_of_int (total_latency_ms three_in_250_ms) / real_of_int (request_count three_in_250_ms)
             = 250 / 3"
    "py_truediv (total_latency_ms three_in_250_ms) (request_count three_in_250_ms) = py_truediv 250 3"
    by (simp_all add: three_in_250_ms_counters)
  have avg: "avg_latency_ms (health_check 20 three_in_250_ms) = 5863827452324741 / 70368744177664"
    unfolding h(1) by (rule float_250_by_3(2))
  have met: "sentiment_service_latency_avg_ms (get_metrics 20 three_in_250_ms)
      = 5863827452324741 / 70368744177664"
    unfolding h(2) by (rule float_250_by_3(2))
  have ne1: "(5863827452324741 / 70368744177664 :: real) \<noteq> py_truediv 250 3"
    unfolding float_250_by_3(1) by simp
  have ne2: "(5863827452324741 / 70368744177664 :: real) \<noteq> 250 / 3"
    by simp
  show ?thesis
    unfolding avg met q by (simp only: three_in_250_ms_counters ne1 ne2 simp_thms)
qed

text \<open>
  C3, amended: for every state whose total latency is below \<open>2^1023\<close> in magnitude (beyond
  the range of a float the division raises), the health query and the metrics query
  return the same average; it is 0 when \<^verbatim>\<open>request_count\<close> is 0, and otherwise it is
  \<^verbatim>\<open>round(total_latency_ms / request_count, 2)\<close>: the float nearest to a whole number of
  hundredths that is at most 0.005 away from the float quotient.
\<close>

theorem avg_latency_rounded:
  assumes "\<bar>total_latency_ms s\<bar> < 2 ^ 1023"
  shows "avg_latency_ms (health_check now s) = sentiment_service_latency_avg_ms (get_metrics now' s)
   \<and> (request_count s = 0 \<longrightarrow> avg_latency_ms (health_check now s) = 0)
   \<and> (0 < request_count s \<longrightarrow>
        avg_latency_ms (health_check now s)
          = py_round2 (py_truediv (total_latency_ms s) (request_count s))
        \<and> (\<exists>d::int. avg_latency_ms (health_check now s) = fl (of_int d / 100)
              \<and> \<bar>of_int d / 100 - py_truediv (total_latency_ms s) (request_count s)\<bar> \<le> 1 / 200))"
proof -
  let ?q = "py_truediv (total_latency_ms s) (request_count s)"
  have same: "avg_latency_ms (health_check now s) = sentiment_service_latency_avg_ms (get_metrics now' s)"
    by (simp add: health_check_def get_metrics_def)
  have zero: "avg_latency_ms (health_check now s) = 0" if "request_count s = 0"
    using that by (simp add: health_check_def avg_latency_def py_round2_zero)
  have pos: "avg_latency_ms (health_check now s) = py_round2 ?q" if "0 < request_count s"
    using that by (simp add: health_check_def avg_latency_def)
  have near: "\<exists>d::int. py_round2 ?q = fl (of_int d / 100) \<and> \<bar>of_int d / 100 - ?q\<bar> \<le> 1 / 200"
  proof (intro exI conjI)
    show "py_round2 ?q = fl (of_int (round_half_even (?q * 100)) / 100)"
      by (simp add: py_round2_def)
    have "\<bar>of_int (round_half_even (?q * 100)) - ?q * 100\<bar> \<le> 1 / 2"
      by (rule round_half_even_near)
    then show "\<bar>of_int (round_half_even (?q * 100)) / 100 - ?q\<bar> \<le> 1 / 200"
      by (simp add: abs_le_iff field_simps)
  qed
  from same zero pos near show ?thesis by (metis (no_types))
qed

theorem avg_latency_rounded_witness:
  "\<bar>total_latency_ms fresh_state\<bar> < 2 ^ 1023 \<and> request_count fresh_state = 0
   \<and> avg_latency_ms (health_check 20 fresh_state) = 0
   \<and> \<bar>total_latency_ms three_in_250_ms\<bar> < 2 ^ 1023 \<and> 0 < request_count three_in_250_ms
   \<and> avg_latency_ms (health_check 20 three_in_250_ms) = py_round2 (py_truediv 250 3)
   \<and> avg_latency_ms (health_check 20 three_in_250_ms)
       = sentiment_service_latency_avg_ms (get_metrics 21 three_in_250_ms)"
proof -
  have z: "\<bar>total_latency_ms fresh_state\<bar> < 2 ^ 1023" "request_count fresh_state = 0"
    by (simp_all add: fresh_state_def initial_state_def)
  have p: "\<bar>total_latency_ms three_in_250_ms\<bar> < 2 ^ 1023" "0 < request_count three_in_250_ms"
    by (simp_all add: three_in_250_ms_counters)
  from avg_latency_rounded [OF z(1), of 20 21] z(2)
  have a: "avg_latency_ms (health_check 20 fresh_state) = 0" by blast
  from avg_latency_rounded [OF p(1), of 20 21] p(2)
  have b: "avg_latency_ms (health_check 20 three_in_250_ms)
             = py_round2 (py_truediv (total_latency_ms three_in_250_ms) (request_count three_in_250_ms))"
    "avg_latency_ms (health_check 20 three_in_250_ms)
       = sentiment_service_latency_avg_ms (get_metrics 21 three_in_250_ms)"
    by blast+
  from z p a b [unfolded three_in_250_ms_counters] show ?thesis by blast
qed

subsection \<open>C4: a batch response holds one entry per text, in input order\<close>




subsection \<open>C5: per-text latency of a batch\<close>

text \<open>
  C5: when \<^verbatim>\<open>analyze_batch\<close> succeeds on N texts, \<^verbatim>\<open>total_latency_ms\<close> of the response
  is the truncated duration of the one inference call in milliseconds, and every entry
  of \<^verbatim>\<open>results\<close> has \<^verbatim>\<open>latency_ms\<close> equal to that total divided by N with Python's
  integer division.
\<close>

theorem batch_per_text_latency:
  assumes "analyze_batch r c s = (Inr resp, s')"
  shows "batch_total_latency_ms resp = py_int ((t_end c - t_start c) * 1000)
    \<and> (\<forall>e \<in> set (results resp).
          item_latency_ms e = batch_total_latency_ms resp div int (length (texts r)))"
proof -
  from assms obtain rs where
    "resp = \<lparr>results = map (batch_item (py_int ((t_end c - t_start c) * 1000) div int (length (texts r))))
                         (zip (texts r) rs),
             batch_source = ''greengrass-edge'',
             batch_total_latency_ms = py_int ((t_end c - t_start c) * 1000),
             count = int (length (texts r)),
             batch_timestamp = now_iso c\<rparr>"
    by (rule analyze_batch_success)
  then show ?thesis by (auto simp: batch_item_def)
qed

theorem batch_per_text_latency_witness:
  "analyze_batch two_texts demo_clock ready_state = (Inr two_texts_response, after_two_texts)
   \<and> batch_total_latency_ms two_texts_response = 250
   \<and> map item_latency_ms (results two_texts_response) = [250 div 2, 250 div 2]"
proof -
  note t = batch_per_text_latency [OF two_texts_handler_run]
  have l: "int (length (texts two_texts)) = 2"
    by (simp add: two_texts_def)
  have r: "results two_texts_response = [results two_texts_response ! 0, results two_texts_response ! 1]"
    by (simp add: two_texts_response_def)
  have m: "results two_texts_response ! 0 \<in> set (results two_texts_response)"
    "results two_texts_response ! 1 \<in> set (results two_texts_response)"
    by (simp_all add: two_texts_response_def)
  have tot: "batch_total_latency_ms two_texts_response = 250"
    by (simp add: two_texts_response_def)
  from t m have "item_latency_ms (results two_texts_response ! 0) = 250 div 2"
    "item_latency_ms (results two_texts_response ! 1) = 250 div 2"
    unfolding l tot by blast+
  then have "map item_latency_ms (results two_texts_response) = [250 div 2, 250 div 2]"
    by (subst r) simp
  with two_texts_handler_run tot show ?thesis by simp
qed

subsection \<open>C6: one invocation of the capability and one metrics update per batch\<close>

text \<open>
  C6: when \<^verbatim>\<open>analyze_batch\<close> succeeds on N texts, the capability has been invoked
  exactly once more, with the whole list; \<^verbatim>\<open>request_count\<close> has grown by N and
  \<^verbatim>\<open>total_latency_ms\<close> by the duration of that one call, which is also the total the
  response reports. The entries of the response are built from the one answer to the
  whole list, and nothing else of the capability matters: with any capability that
  gives the same answer to this list, however it behaves on single texts or on other
  lists, the handler returns the same response and leaves the same state.
\<close>

theorem batch_single_invocation:
  assumes "analyze_batch r c s = (Inr resp, s')" and "classifier s = Some clf"
  shows "calls s' = calls s @ [Many (texts r)]
    \<and> request_count s' = request_count s + int (length (texts r))
    \<and> total_latency_ms s' = total_latency_ms s + py_int ((t_end c - t_start c) * 1000)
    \<and> batch_total_latency_ms resp = py_int ((t_end c - t_start c) * 1000)
    \<and> (\<exists>rs. clf (Many (texts r)) = Inr rs
          \<and> results resp
              = map (batch_item (py_int ((t_end c - t_start c) * 1000) div int (length (texts r))))
                  (zip (texts r) rs))
    \<and> (clf' (Many (texts r)) = clf (Many (texts r)) \<longrightarrow>
          analyze_batch r c (s\<lparr>classifier := Some clf'\<rparr>)
            = (Inr resp, s'\<lparr>classifier := Some clf'\<rparr>))"
proof -
  let ?total = "py_int ((t_end c - t_start c) * 1000)"
  from assms(1) obtain clf0 rs where
    ne: "texts r \<noteq> []"
    and c: "classifier s = Some clf0" "clf0 (Many (texts r)) = Inr rs"
    and resp: "resp = \<lparr>results = map (batch_item (?total div int (length (texts r)))) (zip (texts r) rs),
             batch_source = ''greengrass-edge'',
             batch_total_latency_ms = ?total,
             count = int (length (texts r)),
             batch_timestamp = now_iso c\<rparr>"
    and s': "s' = s\<lparr>calls := calls s @ [Many (texts r)],
            request_count := request_count s + int (length (texts r)),
            total_latency_ms := total_latency_ms s + ?total\<rparr>"
    by (rule analyze_batch_success)
  from c assms(2) have rs: "clf (Many (texts r)) = Inr rs" by simp
  have same: "analyze_batch r c (s\<lparr>classifier := Some clf'\<rparr>) = (Inr resp, s'\<lparr>classifier := Some clf'\<rparr>)"
    if "clf' (Many (texts r)) = clf (Many (texts r))"
    using that rs ne by (simp add: analyze_batch_def invoke_def Let_def resp s')
  from rs same show ?thesis by (simp add: resp s')
qed

theorem batch_single_invocation_witness:
  "analyze_batch two_texts demo_clock ready_state = (Inr two_texts_response, after_two_texts)
   \<and> classifier ready_state = Some demo_pipeline
   \<and> calls ready_state = [Single warmup_text]
   \<and> calls after_two_texts = [Single warmup_text, Many (texts two_texts)]
   \<and> request_count after_two_texts = request_count ready_state + 2
   \<and> total_latency_ms after_two_texts = total_latency_ms ready_state + 250
   \<and> batch_only_pipeline (Many (texts two_texts)) = demo_pipeline (Many (texts two_texts))
   \<and> batch_only_pipeline (Single ''Service was terrible.'') \<noteq> demo_pipeline (Single ''Service was terrible.'')
   \<and> analyze_batch two_texts demo_clock (ready_state\<lparr>classifier := Some batch_only_pipeline\<rparr>)
       = (Inr two_texts_response, after_two_texts\<lparr>classifier := Some batch_only_pipeline\<rparr>)"
proof -
  note t = batch_single_invocation [OF two_texts_handler_run ready_state_classifier,
      where clf' = batch_only_pipeline]
  have e: "py_int ((t_end demo_clock - t_start demo_clock) * 1000) = 250"
    "int (length (texts two_texts)) = 2" "calls ready_state = [Single warmup_text]"
    by (simp_all add: demo_clock_def py_int_def two_texts_def ready_state_eq)
  have b: "batch_only_pipeline (Many (texts two_texts)) = demo_pipeline (Many (texts two_texts))"
    "batch_only_pipeline (Single ''Service was terrible.'') \<noteq> demo_pipeline (Single ''Service was terrible.'')"
    by (simp_all add: batch_only_pipeline_def demo_pipeline_def)
  from t b(1) have "analyze_batch two_texts demo_clock (ready_state\<lparr>classifier := Some batch_only_pipeline\<rparr>)
       = (Inr two_texts_response, after_two_texts\<lparr>classifier := Some batch_only_pipeline\<rparr>)"
    by blast
  with t b two_texts_handler_run ready_state_classifier show ?thesis unfolding e by simp
qed

subsection \<open>C7: error responses leave the counters alone\<close>

text \<open>
  C7: when the classifier is not loaded, \<^verbatim>\<open>analyze_sentiment\<close> and \<^verbatim>\<open>analyze_batch\<close>
  raise \<^verbatim>\<open>HTTPException(503, "Model not loaded")\<close> and the state is unchanged; when the
  capability raises with message \<open>msg\<close>, they raise \<^verbatim>\<open>HTTPException(500, msg)\<close>, and
  nothing of the state but the invocation log has changed: \<^verbatim>\<open>request_count\<close> and
  \<^verbatim>\<open>total_latency_ms\<close> are what they were.
\<close>

theorem analyze_errors_keep_counters:
  "(classifier s = None \<longrightarrow>
      analyze_sentiment r c s = (Inl (HTTPException 503 ''Model not loaded''), s)
      \<and> analyze_batch b c s = (Inl (HTTPException 503 ''Model not loaded''), s))
   \<and> (classifier s = Some clf \<and> clf (Single (req_text r)) = Inl msg \<longrightarrow>
        fst (analyze_sentiment r c s) = Inl (HTTPException 500 msg)
        \<and> snd (analyze_sentiment r c s) = s\<lparr>calls := calls s @ [Single (req_text r)]\<rparr>
        \<and> request_count (snd (analyze_sentiment r c s)) = request_count s
        \<and> total_latency_ms (snd (analyze_sentiment r c s)) = total_latency_ms s)
   \<and> (classifier s = Some clf \<and> clf (Many (texts b)) = Inl msg \<longrightarrow>
        fst (analyze_batch b c s) = Inl (HTTPException 500 msg)
        \<and> snd (analyze_batch b c s) = s\<lparr>calls := calls s @ [Many (texts b)]\<rparr>
        \<and> request_count (snd (analyze_batch b c s)) = request_count s
        \<and> total_latency_ms (snd (analyze_batch b c s)) = total_latency_ms s)"
  by (simp add: analyze_sentiment_def analyze_batch_def invoke_def)

theorem analyze_errors_keep_counters_witness:
  "classifier fresh_state = None
   \<and> analyze_sentiment nice_request demo_clock fresh_state
       = (Inl (HTTPException 503 ''Model not loaded''), fresh_state)
   \<and> analyze_batch two_texts demo_clock fresh_state
       = (Inl (HTTPException 503 ''Model not loaded''), fresh_state)
   \<and> classifier broken_state = Some picky_pipeline
   \<and> picky_pipeline (Single (req_text nice_request)) = Inl ''inference failed''
   \<and> picky_pipeline (Many (texts two_texts)) = Inl ''inference failed''
   \<and> fst (analyze_sentiment nice_request demo_clock broken_state)
       = Inl (HTTPException 500 ''inference failed'')
   \<and> request_count (snd (analyze_sentiment nice_request demo_clock broken_state)) = 0
   \<and> total_latency_ms (snd (analyze_sentiment nice_request demo_clock broken_state)) = 0
   \<and> fst (analyze_batch two_texts demo_clock broken_state)
       = Inl (HTTPException 500 ''inference failed'')
   \<and> request_count (snd (analyze_batch two_texts demo_clock broken_state)) = 0
   \<and> total_latency_ms (snd (analyze_batch two_texts demo_clock broken_state)) = 0"
proof -
  have f: "classifier fresh_state = None"
    by (simp add: fresh_state_def initial_state_def)
  have b: "classifier broken_state = Some picky_pipeline"
    "request_count broken_state = 0" "total_latency_ms broken_state = 0"
    by (simp_all add: broken_state_def startup_event_def picky_factory_def invoke_def
        picky_pipeline_def fresh_state_def initial_state_def)
  have p: "picky_pipeline (Single (req_text nice_request)) = Inl ''inference failed''"
    "picky_pipeline (Many (texts two_texts)) = Inl ''inference failed''"
    by (simp_all add: picky_pipeline_def nice_request_def warmup_text_def)
  show ?thesis
    using f b p
      analyze_errors_keep_counters [where s = fresh_state and r = nice_request
        and c = demo_clock and b = two_texts]
      analyze_errors_keep_counters [where s = broken_state and clf = picky_pipeline
        and r = nice_request and msg = "''inference failed''" and c = demo_clock
        and b = two_texts]
    by simp
qed

subsection \<open>C8: validation boundaries\<close>

text \<open>
  C8: a single request whose text has length 0 or 5001 is rejected with a validation
  error and the state is unchanged, one whose text has length 5000 reaches the handler;
  a batch request with 0 or 101 texts is rejected, one with 100 texts reaches the
  handler. A handler never answers with a validation error itself.
\<close>

theorem validation_boundaries:
  "(length (req_text r) = 0 \<longrightarrow> post_analyze r c s = (Inl RequestValidationError, s))
   \<and> (length (req_text r) = 5000 \<longrightarrow>
        post_analyze r c s = analyze_sentiment r c s
        \<and> fst (post_analyze r c s) \<noteq> Inl RequestValidationError)
   \<and> (length (req_text r) = 5001 \<longrightarrow> post_analyze r c s = (Inl RequestValidationError, s))
   \<and> (length (texts b) = 0 \<longrightarrow> post_analyze_batch b c s = (Inl RequestValidationError, s))
   \<and> (length (texts b) = 100 \<longrightarrow>
        post_analyze_batch b c s = analyze_batch b c s
        \<and> fst (post_analyze_batch b c s) \<noteq> Inl RequestValidationError)
   \<and> (length (texts b) = 101 \<longrightarrow> post_analyze_batch b c s = (Inl RequestValidationError, s))"
  by (simp add: post_analyze_def post_analyze_batch_def SentimentRequest_valid_def
      BatchSentimentRequest_valid_def analyze_sentiment_not_validation
      analyze_batch_not_validation)

theorem validation_boundaries_witness:
  "length (req_text (long_request 0)) = 0
   \<and> post_analyze (long_request 0) demo_clock ready_state = (Inl RequestValidationError, ready_state)
   \<and> length (req_text (long_request 5000)) = 5000
   \<and> post_analyze (long_request 5000) demo_clock ready_state
       = analyze_sentiment (long_request 5000) demo_clock ready_state
   \<and> fst (post_analyze (long_request 5000) demo_clock ready_state) \<noteq> Inl RequestValidationError
   \<and> length (req_text (long_request 5001)) = 5001
   \<and> post_analyze (long_request 5001) demo_clock ready_state = (Inl RequestValidationError, ready_state)
   \<and> length (texts (sized_batch 0)) = 0
   \<and> post_analyze_batch (sized_batch 0) demo_clock ready_state = (Inl RequestValidationError, ready_state)
   \<and> length (texts (sized_batch 100)) = 100
   \<and> post_analyze_batch (sized_batch 100) demo_clock ready_state
       = analyze_batch (sized_batch 100) demo_clock ready_state
   \<and> fst (post_analyze_batch (sized_batch 100) demo_clock ready_state) \<noteq> Inl RequestValidationError
   \<and> length (texts (sized_batch 101)) = 101
   \<and> post_analyze_batch (sized_batch 101) demo_clock ready_state = (Inl RequestValidationError, ready_state)"
proof -
  have l: "length (req_text (long_request 0)) = 0" "length (req_text (long_request 5000)) = 5000"
    "length (req_text (long_request 5001)) = 5001"
    by (simp_all add: long_request_def)
  have m: "length (texts (sized_batch 0)) = 0" "length (texts (sized_batch 100)) = 100"
    "length (texts (sized_batch 101)) = 101"
    by (simp_all add: sized_batch_def)
  note a = validation_boundaries [of "long_request 0" demo_clock ready_state "sized_batch 0"]
  note b = validation_boundaries [of "long_request 5000" demo_clock ready_state "sized_batch 100"]
  note d = validation_boundaries [of "long_request 5001" demo_clock ready_state "sized_batch 101"]
  from a l(1) m(1) have a': "post_analyze (long_request 0) demo_clock ready_state = (Inl RequestValidationError, ready_state)"
    "post_analyze_batch (sized_batch 0) demo_clock ready_state = (Inl RequestValidationError, ready_state)"
    by blast+
  from b l(2) m(2) have b': "post_analyze (long_request 5000) demo_clock ready_state
       = analyze_sentiment (long_request 5000) demo_clock ready_state"
    "fst (post_analyze (long_request 5000) demo_clock ready_state) \<noteq> Inl RequestValidationError"
    "post_analyze_batch (sized_batch 100) demo_clock ready_state
       = analyze_batch (sized_batch 100) demo_clock ready_state"
    "fst (post_analyze_batch (sized_batch 100) demo_clock ready_state) \<noteq> Inl RequestValidationError"
    by blast+
  from d l(3) m(3) have d': "post_analyze (long_request 5001) demo_clock ready_state = (Inl RequestValidationError, ready_state)"
    "post_analyze_batch (sized_batch 101) demo_clock ready_state = (Inl RequestValidationError, ready_state)"
    by blast+
  from l m a' b' d' show ?thesis by blast
qed

subsection \<open>C9: score range and case-normalised label of a single response\<close>

text \<open>
  C9: when a single request succeeds and the scores that the capability returned for its
  text lie in [0, 1], the response's \<^verbatim>\<open>score\<close> lies in [0, 1] and its \<^verbatim>\<open>sentiment\<close>
  is the lower-cased form of the \<^verbatim>\<open>label\<close> it carries.
\<close>

theorem single_score_and_label:
  assumes "post_analyze r c s = (Inr resp, s')"
    and "classifier s = Some clf"
    and "clf (Single (req_text r)) = Inr rs"
    and "\<forall>out \<in> set rs. 0 \<le> out_score out \<and> out_score out \<le> 1"
  shows "0 \<le> score resp \<and> score resp \<le> 1 \<and> sentiment resp = str_lower (label resp)"
proof -
  from assms(1) have "analyze_sentiment r c s = (Inr resp, s')"
    by (auto simp: post_analyze_def split: if_splits)
  then obtain clf' result rest where
    c: "classifier s = Some clf'" "clf' (Single (req_text r)) = Inr (result # rest)"
    and resp: "score resp = out_score result" "label resp = out_label result"
      "sentiment resp = str_lower (out_label result)"
    by (rule analyze_sentiment_success) simp
  from c assms(2,3) have "result \<in> set rs" by auto
  with assms(4) resp show ?thesis by simp
qed

theorem single_score_and_label_witness:
  "post_analyze nice_request demo_clock ready_state =
     (Inr nice_response,
      ready_state\<lparr>calls := [Single warmup_text, Single (req_text nice_request)],
                  request_count := 1, total_latency_ms := 250\<rparr>)
   \<and> classifier ready_state = Some demo_pipeline
   \<and> demo_pipeline (Single (req_text nice_request)) = Inr [demo_classify (req_text nice_request)]
   \<and> 0 \<le> out_score (demo_classify (req_text nice_request))
   \<and> out_score (demo_classify (req_text nice_request)) \<le> 1
   \<and> 0 \<le> score nice_response \<and> score nice_response \<le> 1
   \<and> label nice_response = ''POSITIVE''
   \<and> sentiment nice_response = ''positive''
   \<and> sentiment nice_response = str_lower (label nice_response)"
proof -
  have p: "demo_pipeline (Single (req_text nice_request)) = Inr [demo_classify (req_text nice_request)]"
    by (simp add: demo_pipeline_def)
  have b: "0 \<le> out_score (demo_classify (req_text nice_request))"
    "out_score (demo_classify (req_text nice_request)) \<le> 1"
    by (simp_all add: demo_classify_def)
  then have h: "\<forall>out \<in> set [demo_classify (req_text nice_request)]. 0 \<le> out_score out \<and> out_score out \<le> 1"
    by simp
  have v: "label nice_response = ''POSITIVE''" "sentiment nice_response = ''positive''"
    by (simp_all add: nice_response_def)
  from single_score_and_label [OF nice_run ready_state_classifier p h] nice_run
    ready_state_classifier p b v
  show ?thesis by blast
qed

subsection \<open>C10: batch validation looks at the size of the list only\<close>

text \<open>
  C10: a batch of 1 to 100 texts passes validation whatever its elements are. If one of
  them is empty or longer than 5000 characters, the single-text endpoint rejects that
  text with a validation error, while the batch endpoint hands the whole list to the
  capability, and, when the capability answers with one output per text, returns a
  response whose entries carry exactly the texts of the request, that one included.
\<close>

theorem batch_validation_ignores_text_lengths:
  assumes "1 \<le> length (texts b)" and "length (texts b) \<le> 100"
    and "t \<in> set (texts b)" and "length t = 0 \<or> 5000 < length t"
    and "classifier s = Some clf"
  shows "post_analyze \<lparr>req_text = t, req_context = ctx\<rparr> c s = (Inl RequestValidationError, s)
    \<and> post_analyze_batch b c s = analyze_batch b c s
    \<and> fst (post_analyze_batch b c s) \<noteq> Inl RequestValidationError
    \<and> calls (snd (post_analyze_batch b c s)) = calls s @ [Many (texts b)]
    \<and> (clf (Many (texts b)) = Inr rs \<and> length rs = length (texts b) \<longrightarrow>
         (\<exists>resp. fst (post_analyze_batch b c s) = Inr resp
            \<and> map item_text (results resp) = texts b
            \<and> t \<in> set (map item_text (results resp))))"
proof -
  from assms(4) have single: "post_analyze \<lparr>req_text = t, req_context = ctx\<rparr> c s = (Inl RequestValidationError, s)"
    by (auto simp: post_analyze_def SentimentRequest_valid_def)
  from assms(1,2) have same: "post_analyze_batch b c s = analyze_batch b c s"
    by (simp add: post_analyze_batch_def BatchSentimentRequest_valid_def)
  have classified: "\<exists>resp. fst (analyze_batch b c s) = Inr resp
            \<and> map item_text (results resp) = texts b
            \<and> t \<in> set (map item_text (results resp))"
    if ok: "clf (Many (texts b)) = Inr rs \<and> length rs = length (texts b)"
  proof -
    define total where "total = py_int ((t_end c - t_start c) * 1000)"
    define resp where
      "resp = \<lparr>results = map (batch_item (total div int (length (texts b)))) (zip (texts b) rs),
               batch_source = ''greengrass-edge'', batch_total_latency_ms = total,
               count = int (length (texts b)), batch_timestamp = now_iso c\<rparr>"
    from assms(1) have ne: "length (texts b) \<noteq> 0" by auto
    from ok assms(5) ne have run: "fst (analyze_batch b c s) = Inr resp"
      by (simp add: analyze_batch_def invoke_def Let_def resp_def total_def)
    have "map item_text (results resp) = map fst (zip (texts b) rs)"
      by (simp add: resp_def batch_item_def comp_def)
    with ok have texts_eq: "map item_text (results resp) = texts b" by simp
    with assms(3) have "t \<in> set (map item_text (results resp))" by simp
    with run texts_eq show ?thesis by blast
  qed
  from single same classified show ?thesis
    by (simp only: analyze_batch_not_validation analyze_batch_calls [OF assms(5)]) blast
qed

theorem batch_validation_ignores_text_lengths_witness:
  "1 \<le> length (texts odd_texts) \<and> length (texts odd_texts) \<le> 100
   \<and> '''' \<in> set (texts odd_texts) \<and> length '''' = 0
   \<and> replicate 5001 (CHR ''a'') \<in> set (texts odd_texts) \<and> 5000 < length (replicate 5001 (CHR ''a''))
   \<and> classifier ready_state = Some demo_pipeline
   \<and> post_analyze \<lparr>req_text = '''', req_context = None\<rparr> demo_clock ready_state
       = (Inl RequestValidationError, ready_state)
   \<and> post_analyze \<lparr>req_text = replicate 5001 (CHR ''a''), req_context = None\<rparr> demo_clock ready_state
       = (Inl RequestValidationError, ready_state)
   \<and> fst (post_analyze_batch odd_texts demo_clock ready_state) \<noteq> Inl RequestValidationError
   \<and> calls (snd (post_analyze_batch odd_texts demo_clock ready_state))
       = calls ready_state @ [Many ['''', replicate 5001 (CHR ''a'')]]
   \<and> (\<exists>resp. fst (post_analyze_batch odd_texts demo_clock ready_state) = Inr resp
         \<and> map item_text (results resp) = ['''', replicate 5001 (CHR ''a'')])"
proof -
  have n: "1 \<le> length (texts odd_texts)" "length (texts odd_texts) \<le> 100"
    by (simp_all add: odd_texts_def)
  have e: "'''' \<in> set (texts odd_texts)" "length '''' = 0 \<or> 5000 < length ''''"
    by (simp_all add: odd_texts_def)
  have g: "replicate 5001 (CHR ''a'') \<in> set (texts odd_texts)"
    "length (replicate 5001 (CHR ''a'')) = 0 \<or> 5000 < length (replicate 5001 (CHR ''a''))"
    by (simp_all add: odd_texts_def)
  have p: "demo_pipeline (Many (texts odd_texts)) = Inr (map demo_classify (texts odd_texts))
           \<and> length (map demo_classify (texts odd_texts)) = length (texts odd_texts)"
    by (simp add: demo_pipeline_def)
  have t: "texts odd_texts = ['''', replicate 5001 (CHR ''a'')]"
    by (simp add: odd_texts_def)
  note a = batch_validation_ignores_text_lengths [OF n e ready_state_classifier,
      of None demo_clock "map demo_classify (texts odd_texts)"]
  note b = batch_validation_ignores_text_lengths [OF n g ready_state_classifier,
      of None demo_clock "map demo_classify (texts odd_texts)"]
  from a have a': "post_analyze \<lparr>req_text = '''', req_context = None\<rparr> demo_clock ready_state
       = (Inl RequestValidationError, ready_state)"
    by blast
  from b p have b': "post_analyze \<lparr>req_text = replicate 5001 (CHR ''a''), req_context = None\<rparr> demo_clock ready_state
       = (Inl RequestValidationError, ready_state)"
    "fst (post_analyze_batch odd_texts demo_clock ready_state) \<noteq> Inl RequestValidationError"
    "calls (snd (post_analyze_batch odd_texts demo_clock ready_state))
       = calls ready_state @ [Many (texts odd_texts)]"
    "\<exists>resp. fst (post_analyze_batch odd_texts demo_clock ready_state) = Inr resp
         \<and> map item_text (results resp) = texts odd_texts"
    by blast+
  have len: "length '''' = 0" "5000 < length (replicate 5001 (CHR ''a''))"
    by simp_all
  from n e(1) g(1) len ready_state_classifier a' b' show ?thesis
    unfolding t by blast
qed

end
